theory Spec2Isabelle
  imports Main "HOL-Library.Code_Target_Nat"
begin

section \<open>Strings\<close>

text \<open>
  A JavaScript string is a sequence of UTF-16 code units. The functions of \<^verbatim>\<open>app.js\<close>
  look at single code units only (comma, hyphen, line feed, white space, digits), so a
  string is modelled as the list of its code units, each a natural number. \<open>js\<close> turns
  an ASCII literal into such a string.
\<close>

type_synonym jsstring = "nat list"

definition js :: "string \<Rightarrow> jsstring" where
  "js s = map of_char s"

text \<open>
  The code units that \<^verbatim>\<open>String.prototype.trim\<close> and \<^verbatim>\<open>parseInt\<close> strip: the
  WhiteSpace and LineTerminator productions of ECMA-262 (tab, LF, VT, FF, CR, space,
  no-break space, the Unicode space separators, LS, PS and the byte order mark).
\<close>

definition isWhiteSpace :: "nat \<Rightarrow> bool" where
  "isWhiteSpace c \<longleftrightarrow>
     c \<in> {0x09, 0x0A, 0x0B, 0x0C, 0x0D, 0x20, 0xA0, 0x1680, 0x2028, 0x2029,
          0x202F, 0x205F, 0x3000, 0xFEFF}
     \<or> (0x2000 \<le> c \<and> c \<le> 0x200A)"

definition trimStart :: "jsstring \<Rightarrow> jsstring" where
  "trimStart s = dropWhile isWhiteSpace s"

definition trim :: "jsstring \<Rightarrow> jsstring" where
  "trim s = rev (trimStart (rev (trimStart s)))"

text \<open>
  \<^verbatim>\<open>str.split(sep)\<close> for a one-unit separator: the pieces between the separators;
  a string without separator (the empty string too) gives one piece. A unit that is
  not the separator joins the first piece of what follows; there always is one.
\<close>

fun split_str :: "nat \<Rightarrow> jsstring \<Rightarrow> jsstring list" where
  "split_str sep [] = [[]]"
| "split_str sep (c # cs) =
     (if c = sep then [] # split_str sep cs
      else case split_str sep cs of
             [] \<Rightarrow> [[c]]
           | p # ps \<Rightarrow> (c # p) # ps)"

text \<open>
  \<^verbatim>\<open>text.split(/\r?\n/)\<close>: a line ends at a line feed, and a carriage return
  directly before that line feed belongs to the line break.
\<close>

fun split_lines :: "jsstring \<Rightarrow> jsstring list" where
  "split_lines [] = [[]]"
| "split_lines (c # cs) =
     (if c = 0x0A then [] # split_lines cs
      else if c = 0x0D \<and> cs \<noteq> [] \<and> hd cs = 0x0A then [] # split_lines (tl cs)
      else case split_lines cs of
             [] \<Rightarrow> [[c]]
           | l # ls \<Rightarrow> (c # l) # ls)"

fun startsWith :: "jsstring \<Rightarrow> jsstring \<Rightarrow> bool" where
  "startsWith s [] = True"
| "startsWith [] (p # ps) = False"
| "startsWith (c # cs) (p # ps) = (c = p \<and> startsWith cs ps)"

fun str_includes :: "jsstring \<Rightarrow> jsstring \<Rightarrow> bool" where
  "str_includes [] needle = startsWith [] needle"
| "str_includes (c # cs) needle = (startsWith (c # cs) needle \<or> str_includes cs needle)"

section \<open>Numbers\<close>

text \<open>
  The numbers of \<^verbatim>\<open>computeExpiryInfo\<close> are integers or \<^verbatim>\<open>NaN\<close>: \<open>Num n\<close> is the
  number \<open>n\<close>. JavaScript computes in double precision, which is exact on integers
  below \<open>2^53\<close>. The time value of a valid date is at most \<open>8.64 * 10^15\<close>, below
  \<open>2^53\<close>, and so is its difference to the clock of any computer in use; the
  quotient of such a difference by the milliseconds of a day is rounded up to the same
  integer in double precision as in exact arithmetic. A component of \<^verbatim>\<open>2^53\<close> or
  more (where \<^verbatim>\<open>parseInt\<close> rounds) gives an invalid date there and here: the
  components are not negative, so the date is far outside the range.
\<close>

datatype jsnum = NaN | Num int

fun isNaN :: "jsnum \<Rightarrow> bool" where
  "isNaN NaN = True"
| "isNaN (Num n) = False"

fun num_sub :: "jsnum \<Rightarrow> jsnum \<Rightarrow> jsnum" where
  "num_sub (Num a) (Num b) = Num (a - b)"
| "num_sub a b = NaN"

text \<open>\<^verbatim>\<open>Math.ceil(x / d)\<close> for a positive integer \<open>d\<close>.\<close>

fun ceil_div :: "jsnum \<Rightarrow> int \<Rightarrow> jsnum" where
  "ceil_div (Num a) d = Num (- ((- a) div d))"
| "ceil_div NaN d = NaN"

text \<open>\<^verbatim>\<open>x <= k\<close>: every comparison with \<^verbatim>\<open>NaN\<close> is false.\<close>

fun num_le :: "jsnum \<Rightarrow> int \<Rightarrow> bool" where
  "num_le (Num a) k = (a \<le> k)"
| "num_le NaN k = False"

definition isDigit :: "nat \<Rightarrow> bool" where
  "isDigit c \<longleftrightarrow> 0x30 \<le> c \<and> c \<le> 0x39"

definition digitsValue :: "nat list \<Rightarrow> int" where
  "digitsValue ds = foldl (\<lambda>a c. 10 * a + int (c - 0x30)) 0 ds"

text \<open>
  \<^verbatim>\<open>parseInt(s, 10)\<close>: skip leading white space, read an optional sign, then the
  longest run of decimal digits; no digit gives \<^verbatim>\<open>NaN\<close>, and whatever follows the
  digits is ignored.
\<close>

definition parseInt :: "jsstring \<Rightarrow> jsnum" where
  "parseInt str =
     (let s = trimStart str;
          sign = (if s \<noteq> [] \<and> hd s = 0x2D then - 1 else 1);
          s' = (if s \<noteq> [] \<and> (hd s = 0x2B \<or> hd s = 0x2D) then tl s else s);
          z = takeWhile isDigit s'
      in if z = [] then NaN else Num (sign * digitsValue z))"

section \<open>Dates\<close>

text \<open>
  The browser as \<^verbatim>\<open>app.js\<close> sees it: the clock read by \<^verbatim>\<open>new Date()\<close> (milliseconds
  since the epoch, UTC; one reading serves a whole run), the local time zone as the
  offset \<open>LocalTZA(t, isUTC)\<close> of ECMA-262 (milliseconds to add to UTC; \<open>t\<close> is a UTC
  time value when \<open>isUTC\<close> holds and a local one otherwise), and the collation order
  of \<^verbatim>\<open>localeCompare\<close>. The functions below are the abstract operations of
  ECMA-262 of the same names, on integers.
\<close>

record browser =
  now :: int
  localTZA :: "int \<Rightarrow> bool \<Rightarrow> int"
  localeCompare :: "jsstring \<Rightarrow> jsstring \<Rightarrow> int"

definition msPerDay :: int where
  "msPerDay = 86400000"

definition Day :: "int \<Rightarrow> int" where
  "Day t = t div msPerDay"

definition LocalTime :: "browser \<Rightarrow> int \<Rightarrow> int" where
  "LocalTime b t = t + localTZA b t True"

definition UTC :: "browser \<Rightarrow> int \<Rightarrow> int" where
  "UTC b t = t - localTZA b t False"

definition TimeClip :: "int \<Rightarrow> jsnum" where
  "TimeClip t = (if \<bar>t\<bar> > 8640000000000000 then NaN else Num t)"

definition DaysInYear :: "int \<Rightarrow> int" where
  "DaysInYear y =
     (if y mod 4 \<noteq> 0 then 365 else if y mod 100 \<noteq> 0 then 366
      else if y mod 400 \<noteq> 0 then 365 else 366)"

definition DayFromYear :: "int \<Rightarrow> int" where
  "DayFromYear y =
     365 * (y - 1970) + (y - 1969) div 4 - (y - 1901) div 100 + (y - 1601) div 400"

text \<open>The day within the year on which month \<open>mn\<close> (0 to 11) begins.\<close>

definition monthStart :: "int \<Rightarrow> int \<Rightarrow> int" where
  "monthStart y mn =
     [0, 31, 59, 90, 120, 151, 181, 212, 243, 273, 304, 334] ! nat mn
     + (if 2 \<le> mn \<and> DaysInYear y = 366 then 1 else 0)"

text \<open>
  \<open>MakeDay\<close> of ECMA-262: the day number of the first of month \<open>m mod 12\<close> in year
  \<open>y + m div 12\<close>, plus \<open>dt - 1\<close>. Months and days out of range roll over.
\<close>

definition MakeDay :: "int \<Rightarrow> int \<Rightarrow> int \<Rightarrow> int" where
  "MakeDay y m dt =
     (let ym = y + m div 12; mn = m mod 12
      in DayFromYear ym + monthStart ym mn + dt - 1)"

definition MakeFullYear :: "int \<Rightarrow> int" where
  "MakeFullYear y = (if 0 \<le> y \<and> y \<le> 99 then 1900 + y else y)"

text \<open>\<^verbatim>\<open>new Date(y, m, dt)\<close>: the time value of local midnight of that day.\<close>

fun newDate :: "browser \<Rightarrow> jsnum \<Rightarrow> jsnum \<Rightarrow> jsnum \<Rightarrow> jsnum" where
  "newDate b (Num y) (Num m) (Num dt) =
     TimeClip (UTC b (MakeDay (MakeFullYear y) m dt * msPerDay))"
| "newDate b y m dt = NaN"

text \<open>\<^verbatim>\<open>d.setHours(0,0,0,0)\<close>: local midnight of the local day of \<open>d\<close>.\<close>

fun setHours0 :: "browser \<Rightarrow> jsnum \<Rightarrow> jsnum" where
  "setHours0 b (Num t) = TimeClip (UTC b (Day (LocalTime b t) * msPerDay))"
| "setHours0 b NaN = NaN"

section \<open>Expiry classifier\<close>

datatype status = Safe | Soon | Expired | NoExpiry

record expiry_info =
  daysLeft :: "jsnum option"
  status :: status

text \<open>
  \<^verbatim>\<open>computeExpiryInfo(expiryStr)\<close>. The argument is a field of a parsed row: a
  string, or \<^verbatim>\<open>undefined\<close> (\<open>None\<close>) when the row has no such field. \<open>daysLeft\<close> is
  \<open>None\<close> for \<^verbatim>\<open>null\<close>; \<open>diffDays\<close> is a number, so the test
  \<^verbatim>\<open>diffDays === null\<close> of line 95 never holds.
\<close>

definition computeExpiryInfo :: "browser \<Rightarrow> jsstring option \<Rightarrow> expiry_info" where
  "computeExpiryInfo b expiryStr =
     (case expiryStr of
        None \<Rightarrow> \<lparr>daysLeft = None, status = NoExpiry\<rparr>
      | Some s \<Rightarrow>
          if s = [] \<or> trim s = js ''-'' then \<lparr>daysLeft = None, status = NoExpiry\<rparr>
          else
            let today = setHours0 b (Num (now b));
                parts = map parseInt (split_str 0x2D s)
            in if length parts \<noteq> 3 \<or> list_ex isNaN parts
               then \<lparr>daysLeft = None, status = NoExpiry\<rparr>
               else
                 let expiry = setHours0 b
                       (newDate b (parts ! 0) (num_sub (parts ! 1) (Num 1)) (parts ! 2));
                     diffMs = num_sub expiry today;
                     diffDays = Some (ceil_div diffMs (1000 * 60 * 60 * 24))
                 in \<lparr>daysLeft = diffDays,
                     status = (case diffDays of
                                 None \<Rightarrow> NoExpiry
                               | Some n \<Rightarrow>
                                   if num_le n 30 then Expired
                                   else if num_le n 89 then Soon
                                   else Safe)\<rparr>)"

section \<open>Tabular parser\<close>

text \<open>
  A parsed row is the object \<^verbatim>\<open>obj\<close> built from an empty literal \<^verbatim>\<open>{}\<close>: a finite map
  from the names of its own fields to strings. For the five field names that \<^verbatim>\<open>app.js\<close>
  reads, \<open>r k = None\<close> is \<^verbatim>\<open>r[k] === undefined\<close>.
\<close>

type_synonym row = "jsstring \<rightharpoonup> jsstring"

text \<open>
  \<^verbatim>\<open>obj[h] = v\<close> with a string \<open>v\<close>. An object literal inherits the accessor
  \<^verbatim>\<open>__proto__\<close> from \<^verbatim>\<open>Object.prototype\<close>; assigning a string through it changes
  nothing and creates no property. Every other name becomes an own property.
\<close>

definition set_field :: "row \<Rightarrow> jsstring \<Rightarrow> jsstring \<Rightarrow> row" where
  "set_field obj h v = (if h = js ''__proto__'' then obj else obj(h \<mapsto> v))"

text \<open>\<^verbatim>\<open>while (cols.length < headers.length) cols.push('')\<close>\<close>

function pad_cols :: "nat \<Rightarrow> jsstring list \<Rightarrow> jsstring list" where
  "pad_cols n cols = (if length cols < n then pad_cols n (cols @ [[]]) else cols)"
  by pat_completeness auto
termination
  by (relation "measure (\<lambda>(n, cols). n - length cols)") auto

declare pad_cols.simps [simp del]

text \<open>\<^verbatim>\<open>cols[i] || ''\<close>: an index past the end reads \<^verbatim>\<open>undefined\<close>, which is falsy.\<close>

definition col_or_empty :: "jsstring list \<Rightarrow> nat \<Rightarrow> jsstring" where
  "col_or_empty cols i = (if i < length cols \<and> cols ! i \<noteq> [] then cols ! i else [])"

definition row_of_line :: "jsstring list \<Rightarrow> jsstring \<Rightarrow> row" where
  "row_of_line headers line =
     (let cols = pad_cols (length headers) (map trim (split_str 0x2C line))
      in fold (\<lambda>i obj. set_field obj (headers ! i) (col_or_empty cols i))
           [0 ..< length headers] Map.empty)"

text \<open>Lines 60 to 71 of \<^verbatim>\<open>fetchAndParseCSV\<close>: from the fetched text to the rows.\<close>

definition parseCSV :: "jsstring \<Rightarrow> row list" where
  "parseCSV text =
     (let lines = split_lines (trim text)
      in if length lines \<le> 1 then []
         else let headers = map trim (split_str 0x2C (hd lines))
              in map (row_of_line headers) (tl lines))"

section \<open>Items and the page\<close>

text \<open>
  An element of \<^verbatim>\<open>items\<close>: the string fields copied from the row (\<open>props\<close>) and the
  property \<^verbatim>\<open>_meta\<close> (\<open>meta\<close>).
\<close>

record item =
  props :: row
  meta :: expiry_info

definition key_category :: jsstring where
  "key_category = [0x985E, 0x5225]"

definition key_expiry :: jsstring where
  "key_expiry = [0x5230, 0x671F, 0x65E5] @ js ''(YYYY-MM-DD)''"

text \<open>
  \<^verbatim>\<open>{ ...r, _meta: computeExpiryInfo(r['...']) }\<close>: the fields of the row, and the
  property \<^verbatim>\<open>_meta\<close>, which replaces a field of that name.
\<close>

definition classify :: "browser \<Rightarrow> row \<Rightarrow> item" where
  "classify b r =
     \<lparr>props = r(js ''_meta'' := None), meta = computeExpiryInfo b (r key_expiry)\<rparr>"

datatype urgent_panel = NoUrgentMessage | UrgentRows "item list"

text \<open>
  What \<^verbatim>\<open>renderAll\<close> writes to the page: the four counters, the urgent panel and the
  cards of the listing in their order (the cards alternate between two columns).
\<close>

record view =
  totalCount :: nat
  safeCount :: nat
  soonCount :: nat
  expiredCount :: nat
  urgentList :: urgent_panel
  listing :: "item list"

datatype error = FetchFailed

datatype notice = ConfigAlert | RefreshFailedAlert

text \<open>
  The state of the page: the global \<^verbatim>\<open>items\<close>, the values of the two selectors, what
  the script has rendered (\<open>None\<close>: nothing yet, the page shows its static markup), the
  alerts shown, and whether the refresh button is disabled.
\<close>

record app =
  items :: "item list"
  filterSelect :: jsstring
  sortSelect :: jsstring
  dashboard :: "view option"
  alerts :: "notice list"
  refreshDisabled :: bool

section \<open>Aggregator\<close>

text \<open>
  \<^verbatim>\<open>Array.prototype.sort(cmp)\<close>: a stable sort; \<open>x\<close> goes behind \<open>y\<close> when
  \<^verbatim>\<open>cmp(x, y) > 0\<close>, and a comparison that gives \<^verbatim>\<open>NaN\<close> counts as \<open>0\<close>. For a
  consistent comparator every stable sort gives the list computed here, by insertion
  from the right; for an inconsistent one ECMA-262 leaves the order to the
  implementation.
\<close>

fun sorts_after :: "jsnum \<Rightarrow> bool" where
  "sorts_after (Num v) = (0 < v)"
| "sorts_after NaN = False"

fun insert_cmp :: "('a \<Rightarrow> 'a \<Rightarrow> jsnum) \<Rightarrow> 'a \<Rightarrow> 'a list \<Rightarrow> 'a list" where
  "insert_cmp cmp x [] = [x]"
| "insert_cmp cmp x (y # ys) =
     (if sorts_after (cmp x y) then y # insert_cmp cmp x ys else x # y # ys)"

definition array_sort :: "('a \<Rightarrow> 'a \<Rightarrow> jsnum) \<Rightarrow> 'a list \<Rightarrow> 'a list" where
  "array_sort cmp xs = foldr (insert_cmp cmp) xs []"

text \<open>\<^verbatim>\<open>a._meta.daysLeft === null ? 99999 : a._meta.daysLeft\<close>\<close>

definition expiryKey :: "item \<Rightarrow> jsnum" where
  "expiryKey a = (case daysLeft (meta a) of None \<Rightarrow> Num 99999 | Some d \<Rightarrow> d)"

definition byExpiry :: "item \<Rightarrow> item \<Rightarrow> jsnum" where
  "byExpiry a c = num_sub (expiryKey a) (expiryKey c)"

text \<open>\<^verbatim>\<open>a['...'] || ''\<close>\<close>

definition categoryOrEmpty :: "item \<Rightarrow> jsstring" where
  "categoryOrEmpty a = (case props a key_category of None \<Rightarrow> [] | Some c \<Rightarrow> c)"

definition byCategory :: "browser \<Rightarrow> item \<Rightarrow> item \<Rightarrow> jsnum" where
  "byCategory b a c = Num (localeCompare b (categoryOrEmpty a) (categoryOrEmpty c))"

definition applyFilter :: "jsstring \<Rightarrow> item list \<Rightarrow> item list" where
  "applyFilter selectedFilter its =
     (if selectedFilter \<noteq> [] \<and> selectedFilter \<noteq> js ''all''
      then filter (\<lambda>i. props i key_category = Some selectedFilter) its
      else its)"

definition applySort :: "browser \<Rightarrow> jsstring \<Rightarrow> item list \<Rightarrow> item list" where
  "applySort b sortMode its =
     (if sortMode = js ''category'' then array_sort (byCategory b) its
      else if sortMode = js ''expiry'' then array_sort byExpiry its
      else its)"

definition countStatus :: "status \<Rightarrow> item list \<Rightarrow> nat" where
  "countStatus s its = length (filter (\<lambda>i. status (meta i) = s) its)"

definition isUrgent :: "item \<Rightarrow> bool" where
  "isUrgent i \<longleftrightarrow>
     status (meta i) = Expired
     \<or> (case daysLeft (meta i) of None \<Rightarrow> False | Some d \<Rightarrow> num_le d 30)"

definition urgents :: "item list \<Rightarrow> item list" where
  "urgents its = array_sort byExpiry (filter isUrgent its)"

definition viewModel :: "browser \<Rightarrow> app \<Rightarrow> view" where
  "viewModel b st =
     (let filtered = applySort b (sortSelect st) (applyFilter (filterSelect st) (items st))
      in \<lparr>totalCount = length (items st),
          safeCount = countStatus Safe (items st),
          soonCount = countStatus Soon (items st),
          expiredCount = countStatus Expired (items st),
          urgentList = (if length (urgents (items st)) = 0 then NoUrgentMessage
                        else UrgentRows (urgents (items st))),
          listing = filtered\<rparr>)"

definition renderAll :: "browser \<Rightarrow> app \<Rightarrow> app" where
  "renderAll b st = st\<lparr>dashboard := Some (viewModel b st)\<rparr>"

section \<open>Fetching, page load and refresh\<close>

definition CSV_URL :: jsstring where
  "CSV_URL = js (''https://docs.google.com/spreadsheets/d/e/'' @
     ''2PACX-1vSuvEfe8FiL71hQlZKOuKaDt6wkxeYUdDQBxN4suOusW3FXo4KZDYV4bEPvfBM62vHxaSzHl-7RtL98'' @
     ''/pub?gid=1431903663&single=true&output=csv'')"

text \<open>
  \<^verbatim>\<open>fetchAndParseCSV\<close>. The answer of the network is an argument: \<open>Inr text\<close> is the
  body of the response, \<open>Inl e\<close> a rejected \<^verbatim>\<open>fetch\<close> or \<^verbatim>\<open>resp.text()\<close>, which the
  function passes on to its caller.
\<close>

definition fetchAndParseCSV :: "error + jsstring \<Rightarrow> app \<Rightarrow> (error + row list) \<times> app" where
  "fetchAndParseCSV response st =
     (if str_includes CSV_URL (js ''<YOUR_PUB_ID>'')
      then (Inr [], st\<lparr>alerts := alerts st @ [ConfigAlert]\<rparr>)
      else case response of
             Inl e \<Rightarrow> (Inl e, st)
           | Inr text \<Rightarrow> (Inr (parseCSV text), st))"

text \<open>
  \<^verbatim>\<open>init\<close>, the listener of the \<^verbatim>\<open>load\<close> event. \<open>Inl e\<close> in the result is the
  promise of \<^verbatim>\<open>init\<close> rejected with \<open>e\<close>: the listener's caller drops that promise,
  so the rejection is handled by nobody. \<^verbatim>\<open>raw\<close> is an array, so \<^verbatim>\<open>!raw\<close> is false.
\<close>

definition init :: "browser \<Rightarrow> error + jsstring \<Rightarrow> app \<Rightarrow> (error + unit) \<times> app" where
  "init b response st =
     (case fetchAndParseCSV response st of
        (Inl e, st1) \<Rightarrow> (Inl e, st1)
      | (Inr raw, st1) \<Rightarrow>
          if length raw = 0 then (Inr (), st1)
          else (Inr (), renderAll b (st1\<lparr>items := map (classify b) raw\<rparr>)))"

text \<open>
  The click listener of the refresh button: \<^verbatim>\<open>try\<close>, \<^verbatim>\<open>catch\<close> (an alert) and
  \<^verbatim>\<open>finally\<close> (the button is enabled again).
\<close>

definition refreshClick :: "browser \<Rightarrow> error + jsstring \<Rightarrow> app \<Rightarrow> (error + unit) \<times> app" where
  "refreshClick b response st =
     (let st0 = st\<lparr>refreshDisabled := True\<rparr>;
          st2 = (case fetchAndParseCSV response st0 of
                   (Inl e, st1) \<Rightarrow> st1\<lparr>alerts := alerts st1 @ [RefreshFailedAlert]\<rparr>
                 | (Inr raw, st1) \<Rightarrow> renderAll b (st1\<lparr>items := map (classify b) raw\<rparr>))
      in (Inr (), st2\<lparr>refreshDisabled := False\<rparr>))"

section \<open>Sample environments\<close>

text \<open>A collation that compares code unit by code unit.\<close>

fun codeUnitCompare :: "jsstring \<Rightarrow> jsstring \<Rightarrow> int" where
  "codeUnitCompare [] [] = 0"
| "codeUnitCompare [] (y # ys) = - 1"
| "codeUnitCompare (x # xs) [] = 1"
| "codeUnitCompare (x # xs) (y # ys) =
     (if x < y then - 1 else if y < x then 1 else codeUnitCompare xs ys)"

text \<open>
  A browser in Taipei (UTC+8 all year) at 2026-11-02 18:00 local time, and one in New
  York at 2026-10-15 12:00 local time. New York is at UTC-4 until 2026-11-01 02:00
  local time (06:00 UTC) and at UTC-5 from then on; only that change is modelled.
\<close>

definition taipei :: browser where
  "taipei = \<lparr>now = 1793613600000, localTZA = (\<lambda>t isUTC. 28800000),
     localeCompare = codeUnitCompare\<rparr>"

definition newYork :: browser where
  "newYork = \<lparr>now = 1792080000000,
     localTZA = (\<lambda>t isUTC. if t < (if isUTC then 1793512800000 else 1793498400000)
                            then - 14400000 else - 18000000),
     localeCompare = codeUnitCompare\<rparr>"

text \<open>
  A browser in Apia at 2011-12-29 12:00 local time. Apia is at UTC-10 until the end of
  that day (2011-12-30 10:00 UTC) and at UTC+14 from then on: its calendar has no
  2011-12-30. Only that change is modelled.
\<close>

definition apia :: browser where
  "apia = \<lparr>now = 1325196000000,
     localTZA = (\<lambda>t isUTC. if t < (if isUTC then 1325239200000 else 1325289600000)
                            then - 36000000 else 50400000),
     localeCompare = codeUnitCompare\<rparr>"

definition emptyPage :: app where
  "emptyPage = \<lparr>items = [], filterSelect = js ''all'', sortSelect = js ''none'',
     dashboard = None, alerts = [], refreshDisabled = False\<rparr>"

text \<open>
  A sheet with the header of the deployed one and five rows: no expiry, 18 days, 74
  days and 211 days ahead of the Taipei clock above, and the last day of the year 9999.
\<close>

definition sampleCSV :: jsstring where
  "sampleCSV =
     [0x540D, 0x7A31] @ js '','' @ key_category @ js '','' @ [0x6578, 0x91CF] @ js '',''
       @ key_expiry @ js '','' @ [0x5099, 0x8A3B] @ [0x0D, 0x0A]
     @ js ''Water,Drink,10,-,'' @ [0x0D, 0x0A]
     @ js ''Salt,Food,1,9999-12-31,'' @ [0x0D, 0x0A]
     @ js ''Pills,Medicine,1,2027-06-01,keep dry'' @ [0x0D, 0x0A]
     @ js ''Rice,Food,2,2026-11-20'' @ [0x0D, 0x0A]
     @ js ''Beans,Food,5,2027-01-15,,extra'' @ [0x0D, 0x0A]"

definition sampleItems :: "item list" where
  "sampleItems = map (classify taipei) (parseCSV sampleCSV)"

definition samplePage :: app where
  "samplePage = emptyPage\<lparr>items := sampleItems\<rparr>"

text \<open>A sheet whose second column is headed \<^verbatim>\<open>__proto__\<close>.\<close>

definition protoCSV :: jsstring where
  "protoCSV = js ''name,__proto__'' @ [0x0A] @ js ''Rice,x''"

section \<open>Calendar days and the time zone\<close>

text \<open>
  The notions the claims about dates are stated in: the local calendar day of the clock,
  the calendar day the \<^verbatim>\<open>Date\<close> constructor makes of year, month and day as written
  in the string, the instant of local midnight of a day, and the offset of the zone
  there.
\<close>

definition todayDay :: "browser \<Rightarrow> int" where
  "todayDay b = Day (LocalTime b (now b))"

definition expiryDay :: "int \<Rightarrow> int \<Rightarrow> int \<Rightarrow> int" where
  "expiryDay y m d = MakeDay (MakeFullYear y) (m - 1) d"

definition midnightOf :: "browser \<Rightarrow> int \<Rightarrow> int" where
  "midnightOf b D = UTC b (D * msPerDay)"

definition zoneOffsetAt :: "browser \<Rightarrow> int \<Rightarrow> int" where
  "zoneOffsetAt b D = localTZA b (D * msPerDay) False"

text \<open>A time value that a \<^verbatim>\<open>Date\<close> can hold: \<open>TimeClip\<close> keeps it.\<close>

definition inDateRange :: "int \<Rightarrow> bool" where
  "inDateRange t \<longleftrightarrow> \<bar>t\<bar> \<le> 8640000000000000"

section \<open>Facts about strings\<close>

lemma split_str_nonempty: "split_str c s \<noteq> []"
  by (induction s) (auto split: list.splits)

lemma length_split_str: "length (split_str c s) = Suc (length (filter (\<lambda>x. x = c) s))"
  by (induction s) (auto split: list.splits)

lemma split_lines_nonempty: "split_lines s \<noteq> []"
  by (induction s rule: split_lines.induct) (auto split: list.splits)

lemma trimStart_decomp: "\<exists>a. s = a @ trimStart s \<and> (\<forall>x\<in>set a. isWhiteSpace x)"
proof -
  have "s = takeWhile isWhiteSpace s @ trimStart s"
    by (simp add: trimStart_def)
  moreover have "\<forall>x\<in>set (takeWhile isWhiteSpace s). isWhiteSpace x"
    by (auto dest: set_takeWhileD)
  ultimately show ?thesis by blast
qed

lemma trim_decomp:
  "\<exists>a z. s = a @ trim s @ z \<and> (\<forall>x\<in>set a. isWhiteSpace x) \<and> (\<forall>x\<in>set z. isWhiteSpace x)"
proof -
  obtain a where a: "s = a @ trimStart s" "\<forall>x\<in>set a. isWhiteSpace x"
    using trimStart_decomp by blast
  obtain z where z: "rev (trimStart s) = z @ trimStart (rev (trimStart s))"
    "\<forall>x\<in>set z. isWhiteSpace x"
    using trimStart_decomp by blast
  from z(1) have "trimStart s = trim s @ rev z"
    by (metis rev_append rev_rev_ident trim_def)
  with a z(2) show ?thesis
    by (metis append_assoc set_rev)
qed

lemma hyphen_not_space: "\<not> isWhiteSpace 0x2D"
  by (simp add: isWhiteSpace_def)

lemma filter_space_hyphen: "\<forall>x\<in>set a. isWhiteSpace x \<Longrightarrow> filter (\<lambda>x. x = 0x2D) a = []"
  using hyphen_not_space by (induction a) auto

text \<open>A string that trims to a lone hyphen has two components, both blank.\<close>

lemma trim_hyphen_two_parts:
  assumes "trim s = js ''-''"
  shows "length (split_str 0x2D s) = 2"
proof -
  obtain a z where s: "s = a @ trim s @ z"
    and a: "\<forall>x\<in>set a. isWhiteSpace x" and z: "\<forall>x\<in>set z. isWhiteSpace x"
    using trim_decomp by blast
  have "filter (\<lambda>x. x = 0x2D) s = filter (\<lambda>x. x = 0x2D) (a @ [0x2D] @ z)"
    using s assms by (simp add: js_def)
  then have "length (filter (\<lambda>x. x = 0x2D) s) = 1"
    using filter_space_hyphen [OF a] filter_space_hyphen [OF z] by simp
  then show ?thesis by (simp add: length_split_str)
qed

lemma list_ex_isNaN_parseInt:
  "list_ex isNaN (map parseInt ps) = list_ex (\<lambda>c. parseInt c = NaN) ps"
proof (induction ps)
  case Nil
  show ?case by simp
next
  case (Cons p ps)
  then show ?case by (cases "parseInt p") auto
qed

section \<open>The expiry classifier\<close>

text \<open>
  C2: an expiry string that is empty, that trims to a lone hyphen, that has not exactly
  three hyphen-separated components, or one of whose components \<^verbatim>\<open>parseInt\<close> turns
  into \<^verbatim>\<open>NaN\<close>, is classified as \<open>daysLeft = null\<close>, \<open>status = noexpiry\<close>, whatever
  the clock and the time zone. \<open>computeExpiryInfo\<close> has a result for every string:
  no operation it applies to a string or a number can throw.
\<close>

theorem computeExpiryInfo_fallback:
  "s = [] \<or> trim s = js ''-'' \<or> length (split_str 0x2D s) \<noteq> 3
     \<or> list_ex (\<lambda>c. parseInt c = NaN) (split_str 0x2D s)
   \<Longrightarrow> computeExpiryInfo b (Some s) = \<lparr>daysLeft = None, status = NoExpiry\<rparr>"
  by (auto simp add: computeExpiryInfo_def Let_def list_ex_isNaN_parseInt)

theorem computeExpiryInfo_fallback_witness:
  "list_ex (\<lambda>c. parseInt c = NaN) (split_str 0x2D (js ''not-a-date''))
   \<and> computeExpiryInfo taipei (Some (js ''not-a-date'')) = \<lparr>daysLeft = None, status = NoExpiry\<rparr>
   \<and> length (split_str 0x2D (js ''2024-13'')) \<noteq> 3
   \<and> computeExpiryInfo taipei (Some (js ''2024-13'')) = \<lparr>daysLeft = None, status = NoExpiry\<rparr>
   \<and> length (split_str 0x2D (js '' '')) \<noteq> 3
   \<and> computeExpiryInfo taipei (Some (js '' '')) = \<lparr>daysLeft = None, status = NoExpiry\<rparr>
   \<and> trim (js '' - '') = js ''-''
   \<and> computeExpiryInfo taipei (Some (js '' - '')) = \<lparr>daysLeft = None, status = NoExpiry\<rparr>
   \<and> computeExpiryInfo taipei (Some []) = \<lparr>daysLeft = None, status = NoExpiry\<rparr>"
proof -
  have h1: "list_ex (\<lambda>c. parseInt c = NaN) (split_str 0x2D (js ''not-a-date''))"
    by code_simp
  have h2: "length (split_str 0x2D (js ''2024-13'')) \<noteq> 3"
    by code_simp
  have h3: "length (split_str 0x2D (js '' '')) \<noteq> 3"
    by code_simp
  have h4: "trim (js '' - '') = js ''-''"
    by code_simp
  show ?thesis
    using h1 h2 h3 h4
      computeExpiryInfo_fallback [of "js ''not-a-date''" taipei]
      computeExpiryInfo_fallback [of "js ''2024-13''" taipei]
      computeExpiryInfo_fallback [of "js '' ''" taipei]
      computeExpiryInfo_fallback [of "js '' - ''" taipei]
      computeExpiryInfo_fallback [of "[]" taipei]
    by blast
qed

text \<open>A string of three components passes both guards of the first line.\<close>

lemma three_parts_guard:
  assumes "length (split_str 0x2D s) = 3"
  shows "s \<noteq> [] \<and> trim s \<noteq> js ''-''"
  using assms trim_hyphen_two_parts [of s] by auto

text \<open>The result on a string whose three components all parse.\<close>

lemma computeExpiryInfo_dated:
  assumes parts: "map parseInt (split_str 0x2D s) = [Num y, Num m, Num d]"
  shows "computeExpiryInfo b (Some s) =
    (let dl = ceil_div (num_sub (setHours0 b (newDate b (Num y) (Num (m - 1)) (Num d)))
                (setHours0 b (Num (now b)))) msPerDay
     in \<lparr>daysLeft = Some dl,
         status = (if num_le dl 30 then Expired else if num_le dl 89 then Soon else Safe)\<rparr>)"
proof -
  have "length (map parseInt (split_str 0x2D s)) = 3"
    by (simp add: parts)
  then have len: "length (split_str 0x2D s) = 3" by simp
  then have g: "s \<noteq> []" "trim s \<noteq> js ''-''"
    using three_parts_guard by blast+
  show ?thesis
    using g by (simp add: computeExpiryInfo_def parts Let_def msPerDay_def)
qed

text \<open>Every result is the fallback or a day count with the status of its thresholds.\<close>

lemma computeExpiryInfo_cases:
  "computeExpiryInfo b x = \<lparr>daysLeft = None, status = NoExpiry\<rparr>
   \<or> (\<exists>dl. computeExpiryInfo b x = \<lparr>daysLeft = Some dl,
         status = (if num_le dl 30 then Expired else if num_le dl 89 then Soon else Safe)\<rparr>)"
  by (cases x) (auto simp add: computeExpiryInfo_def Let_def)

lemma today_midnight: "setHours0 b (Num (now b)) = TimeClip (midnightOf b (todayDay b))"
  by (simp add: midnightOf_def todayDay_def)

lemma ceil_div_days:
  assumes "0 \<le> e" "e < msPerDay"
  shows "ceil_div (Num (n * msPerDay - e)) msPerDay = Num n"
proof -
  have "(e - n * msPerDay) div msPerDay = - n"
  proof -
    have "(e + (- n) * msPerDay) div msPerDay = - n + e div msPerDay"
      by (rule div_mult_self1) (simp add: msPerDay_def)
    moreover have "e div msPerDay = 0" using assms by simp
    ultimately show ?thesis by (simp add: algebra_simps)
  qed
  then show ?thesis by (simp add: algebra_simps)
qed

text \<open>
  The two midnights are whole calendar days apart, less what the offset of the zone
  has grown from the one to the other; rounding up gives the calendar days when that
  growth is not negative and less than a day.
\<close>

lemma daysLeft_calendar:
  assumes r0: "inDateRange (midnightOf b (todayDay b))"
    and r1: "inDateRange (midnightOf b D)"
    and day: "Day (LocalTime b (midnightOf b D)) = D"
    and le: "zoneOffsetAt b (todayDay b) \<le> zoneOffsetAt b D"
    and less: "zoneOffsetAt b D < zoneOffsetAt b (todayDay b) + msPerDay"
  shows "ceil_div (num_sub (setHours0 b (TimeClip (midnightOf b D)))
           (setHours0 b (Num (now b)))) msPerDay = Num (D - todayDay b)"
proof -
  let ?o0 = "zoneOffsetAt b (todayDay b)" and ?o1 = "zoneOffsetAt b D"
  have e: "setHours0 b (TimeClip (midnightOf b D)) = Num (midnightOf b D)"
    using r1 day by (simp add: TimeClip_def inDateRange_def) (simp add: midnightOf_def)
  have t: "setHours0 b (Num (now b)) = Num (midnightOf b (todayDay b))"
    using r0 unfolding today_midnight by (simp add: TimeClip_def inDateRange_def)
  have "midnightOf b D - midnightOf b (todayDay b)
      = (D - todayDay b) * msPerDay - (?o1 - ?o0)"
    by (simp add: midnightOf_def UTC_def zoneOffsetAt_def algebra_simps)
  then show ?thesis
    using le less ceil_div_days [of "?o1 - ?o0" "D - todayDay b"] unfolding e t by simp
qed

text \<open>
  A date whose local midnight is no time value a \<^verbatim>\<open>Date\<close> can hold has the day
  count \<^verbatim>\<open>NaN\<close> and, every comparison with \<^verbatim>\<open>NaN\<close> being false, the status \<open>safe\<close>.
\<close>

lemma computeExpiryInfo_out_of_range:
  assumes parts: "map parseInt (split_str 0x2D s) = [Num y, Num m, Num d]"
    and out: "\<not> inDateRange (midnightOf b (expiryDay y m d))"
  shows "computeExpiryInfo b (Some s) = \<lparr>daysLeft = Some NaN, status = Safe\<rparr>"
proof -
  have "newDate b (Num y) (Num (m - 1)) (Num d) = NaN"
    using out by (simp add: midnightOf_def expiryDay_def TimeClip_def inDateRange_def)
  then show ?thesis
    by (simp add: computeExpiryInfo_dated [OF parts] Let_def)
qed

text \<open>
  C1, amended: on a string whose three components all parse, the status follows from
  \<open>daysLeft\<close> by the thresholds in their order: at most 30 gives \<open>expired\<close>, else at
  most 89 gives \<open>soon\<close>, else \<open>safe\<close>. \<open>daysLeft\<close> is the number of calendar days
  from today to the expiry date (so the date of today gives 0 and \<open>expired\<close>, 30 days
  ahead \<open>expired\<close>, 31 and 89 days ahead \<open>soon\<close>, 90 days ahead \<open>safe\<close>) under these
  provisos, in the order of the statement: today's local midnight and the local
  midnight of the expiry date are time values a \<^verbatim>\<open>Date\<close> can hold; the instant of the
  expiry date's local midnight falls on that date in local time; the offset of the zone
  from UTC at the expiry date's midnight is not smaller than at today's midnight (the
  clocks are not set back in between), and it is larger by less than a day.
\<close>

theorem computeExpiryInfo_thresholds:
  assumes parts: "map parseInt (split_str 0x2D s) = [Num y, Num m, Num d]"
  shows "\<exists>dl. computeExpiryInfo b (Some s) =
            \<lparr>daysLeft = Some dl,
             status = (if num_le dl 30 then Expired else if num_le dl 89 then Soon else Safe)\<rparr>
          \<and> (inDateRange (midnightOf b (todayDay b))
              \<and> inDateRange (midnightOf b (expiryDay y m d))
              \<and> Day (LocalTime b (midnightOf b (expiryDay y m d))) = expiryDay y m d
              \<and> zoneOffsetAt b (todayDay b) \<le> zoneOffsetAt b (expiryDay y m d)
              \<and> zoneOffsetAt b (expiryDay y m d) < zoneOffsetAt b (todayDay b) + msPerDay
              \<longrightarrow>
               dl = Num (expiryDay y m d - todayDay b)
               \<and> (expiryDay y m d = todayDay b \<longrightarrow>
                    computeExpiryInfo b (Some s) = \<lparr>daysLeft = Some (Num 0), status = Expired\<rparr>)
               \<and> (expiryDay y m d = todayDay b + 30 \<longrightarrow>
                    status (computeExpiryInfo b (Some s)) = Expired)
               \<and> (expiryDay y m d = todayDay b + 31 \<longrightarrow>
                    status (computeExpiryInfo b (Some s)) = Soon)
               \<and> (expiryDay y m d = todayDay b + 89 \<longrightarrow>
                    status (computeExpiryInfo b (Some s)) = Soon)
               \<and> (expiryDay y m d = todayDay b + 90 \<longrightarrow>
                    status (computeExpiryInfo b (Some s)) = Safe))"
proof -
  let ?D = "expiryDay y m d"
  let ?P = "inDateRange (midnightOf b (todayDay b))
              \<and> inDateRange (midnightOf b ?D)
              \<and> Day (LocalTime b (midnightOf b ?D)) = ?D
              \<and> zoneOffsetAt b (todayDay b) \<le> zoneOffsetAt b ?D
              \<and> zoneOffsetAt b ?D < zoneOffsetAt b (todayDay b) + msPerDay"
  define dl where "dl = ceil_div (num_sub (setHours0 b (newDate b (Num y) (Num (m - 1)) (Num d)))
                (setHours0 b (Num (now b)))) msPerDay"
  have r: "computeExpiryInfo b (Some s) =
      \<lparr>daysLeft = Some dl,
       status = (if num_le dl 30 then Expired else if num_le dl 89 then Soon else Safe)\<rparr>"
    unfolding dl_def using computeExpiryInfo_dated [OF parts, of b] by (simp add: Let_def)
  have nd: "newDate b (Num y) (Num (m - 1)) (Num d) = TimeClip (midnightOf b ?D)"
    by (simp add: midnightOf_def expiryDay_def)
  have count: "dl = Num (?D - todayDay b)" if ?P
    unfolding dl_def nd using that by (intro daysLeft_calendar) simp_all
  show ?thesis
  proof (intro exI conjI impI)
    show "computeExpiryInfo b (Some s) =
      \<lparr>daysLeft = Some dl,
       status = (if num_le dl 30 then Expired else if num_le dl 89 then Soon else Safe)\<rparr>"
      by (rule r)
  next
    assume ?P
    then show "dl = Num (?D - todayDay b)" by (rule count)
  next
    assume ?P "?D = todayDay b"
    then show "computeExpiryInfo b (Some s) = \<lparr>daysLeft = Some (Num 0), status = Expired\<rparr>"
      using count by (simp add: r)
  next
    assume ?P "?D = todayDay b + 30"
    then show "status (computeExpiryInfo b (Some s)) = Expired"
      using count by (simp add: r)
  next
    assume ?P "?D = todayDay b + 31"
    then show "status (computeExpiryInfo b (Some s)) = Soon"
      using count by (simp add: r)
  next
    assume ?P "?D = todayDay b + 89"
    then show "status (computeExpiryInfo b (Some s)) = Soon"
      using count by (simp add: r)
  next
    assume ?P "?D = todayDay b + 90"
    then show "status (computeExpiryInfo b (Some s)) = Safe"
      using count by (simp add: r)
  qed
qed

text \<open>
  In Taipei on 2026-11-02 the provisos hold for each of these dates: that day is 0 days
  ahead and \<open>expired\<close>, the second of December 30 days and \<open>expired\<close>, the third 31
  days and \<open>soon\<close>, the 30th of January 89 days and \<open>soon\<close>, the 31st 90 days and
  \<open>safe\<close>.
\<close>

theorem computeExpiryInfo_thresholds_witness:
  "map parseInt (split_str 0x2D (js ''2026-11-02'')) = [Num 2026, Num 11, Num 2]
   \<and> inDateRange (midnightOf taipei (todayDay taipei))
   \<and> inDateRange (midnightOf taipei (expiryDay 2026 11 2))
   \<and> Day (LocalTime taipei (midnightOf taipei (expiryDay 2026 11 2))) = expiryDay 2026 11 2
   \<and> zoneOffsetAt taipei (todayDay taipei) \<le> zoneOffsetAt taipei (expiryDay 2026 11 2)
   \<and> zoneOffsetAt taipei (expiryDay 2026 11 2) < zoneOffsetAt taipei (todayDay taipei) + msPerDay
   \<and> expiryDay 2026 11 2 = todayDay taipei
   \<and> computeExpiryInfo taipei (Some (js ''2026-11-02''))
       = \<lparr>daysLeft = Some (Num 0), status = Expired\<rparr>
   \<and> map parseInt (split_str 0x2D (js ''2026-12-02'')) = [Num 2026, Num 12, Num 2]
   \<and> inDateRange (midnightOf taipei (expiryDay 2026 12 2))
   \<and> Day (LocalTime taipei (midnightOf taipei (expiryDay 2026 12 2))) = expiryDay 2026 12 2
   \<and> zoneOffsetAt taipei (todayDay taipei) \<le> zoneOffsetAt taipei (expiryDay 2026 12 2)
   \<and> zoneOffsetAt taipei (expiryDay 2026 12 2) < zoneOffsetAt taipei (todayDay taipei) + msPerDay
   \<and> expiryDay 2026 12 2 = todayDay taipei + 30
   \<and> status (computeExpiryInfo taipei (Some (js ''2026-12-02''))) = Expired
   \<and> map parseInt (split_str 0x2D (js ''2026-12-03'')) = [Num 2026, Num 12, Num 3]
   \<and> inDateRange (midnightOf taipei (expiryDay 2026 12 3))
   \<and> Day (LocalTime taipei (midnightOf taipei (expiryDay 2026 12 3))) = expiryDay 2026 12 3
   \<and> zoneOffsetAt taipei (todayDay taipei) \<le> zoneOffsetAt taipei (expiryDay 2026 12 3)
   \<and> zoneOffsetAt taipei (expiryDay 2026 12 3) < zoneOffsetAt taipei (todayDay taipei) + msPerDay
   \<and> expiryDay 2026 12 3 = todayDay taipei + 31
   \<and> status (computeExpiryInfo taipei (Some (js ''2026-12-03''))) = Soon
   \<and> map parseInt (split_str 0x2D (js ''2027-01-30'')) = [Num 2027, Num 1, Num 30]
   \<and> inDateRange (midnightOf taipei (expiryDay 2027 1 30))
   \<and> Day (LocalTime taipei (midnightOf taipei (expiryDay 2027 1 30))) = expiryDay 2027 1 30
   \<and> zoneOffsetAt taipei (todayDay taipei) \<le> zoneOffsetAt taipei (expiryDay 2027 1 30)
   \<and> zoneOffsetAt taipei (expiryDay 2027 1 30) < zoneOffsetAt taipei (todayDay taipei) + msPerDay
   \<and> expiryDay 2027 1 30 = todayDay taipei + 89
   \<and> status (computeExpiryInfo taipei (Some (js ''2027-01-30''))) = Soon
   \<and> map parseInt (split_str 0x2D (js ''2027-01-31'')) = [Num 2027, Num 1, Num 31]
   \<and> inDateRange (midnightOf taipei (expiryDay 2027 1 31))
   \<and> Day (LocalTime taipei (midnightOf taipei (expiryDay 2027 1 31))) = expiryDay 2027 1 31
   \<and> zoneOffsetAt taipei (todayDay taipei) \<le> zoneOffsetAt taipei (expiryDay 2027 1 31)
   \<and> zoneOffsetAt taipei (expiryDay 2027 1 31) < zoneOffsetAt taipei (todayDay taipei) + msPerDay
   \<and> expiryDay 2027 1 31 = todayDay taipei + 90
   \<and> status (computeExpiryInfo taipei (Some (js ''2027-01-31''))) = Safe"
proof -
  have t: "inDateRange (midnightOf taipei (todayDay taipei))"
    by code_simp
  have p0: "map parseInt (split_str 0x2D (js ''2026-11-02'')) = [Num 2026, Num 11, Num 2]"
    by code_simp
  have z0: "inDateRange (midnightOf taipei (expiryDay 2026 11 2))
    \<and> Day (LocalTime taipei (midnightOf taipei (expiryDay 2026 11 2))) = expiryDay 2026 11 2
    \<and> zoneOffsetAt taipei (todayDay taipei) \<le> zoneOffsetAt taipei (expiryDay 2026 11 2)
    \<and> zoneOffsetAt taipei (expiryDay 2026 11 2) < zoneOffsetAt taipei (todayDay taipei) + msPerDay"
    by code_simp
  have d0: "expiryDay 2026 11 2 = todayDay taipei"
    by code_simp
  have p1: "map parseInt (split_str 0x2D (js ''2026-12-02'')) = [Num 2026, Num 12, Num 2]"
    by code_simp
  have z1: "inDateRange (midnightOf taipei (expiryDay 2026 12 2))
    \<and> Day (LocalTime taipei (midnightOf taipei (expiryDay 2026 12 2))) = expiryDay 2026 12 2
    \<and> zoneOffsetAt taipei (todayDay taipei) \<le> zoneOffsetAt taipei (expiryDay 2026 12 2)
    \<and> zoneOffsetAt taipei (expiryDay 2026 12 2) < zoneOffsetAt taipei (todayDay taipei) + msPerDay"
    by code_simp
  have d1: "expiryDay 2026 12 2 = todayDay taipei + 30"
    by code_simp
  have p2: "map parseInt (split_str 0x2D (js ''2026-12-03'')) = [Num 2026, Num 12, Num 3]"
    by code_simp
  have z2: "inDateRange (midnightOf taipei (expiryDay 2026 12 3))
    \<and> Day (LocalTime taipei (midnightOf taipei (expiryDay 2026 12 3))) = expiryDay 2026 12 3
    \<and> zoneOffsetAt taipei (todayDay taipei) \<le> zoneOffsetAt taipei (expiryDay 2026 12 3)
    \<and> zoneOffsetAt taipei (expiryDay 2026 12 3) < zoneOffsetAt taipei (todayDay taipei) + msPerDay"
    by code_simp
  have d2: "expiryDay 2026 12 3 = todayDay taipei + 31"
    by code_simp
  have p3: "map parseInt (split_str 0x2D (js ''2027-01-30'')) = [Num 2027, Num 1, Num 30]"
    by code_simp
  have z3: "inDateRange (midnightOf taipei (expiryDay 2027 1 30))
    \<and> Day (LocalTime taipei (midnightOf taipei (expiryDay 2027 1 30))) = expiryDay 2027 1 30
    \<and> zoneOffsetAt taipei (todayDay taipei) \<le> zoneOffsetAt taipei (expiryDay 2027 1 30)
    \<and> zoneOffsetAt taipei (expiryDay 2027 1 30) < zoneOffsetAt taipei (todayDay taipei) + msPerDay"
    by code_simp
  have d3: "expiryDay 2027 1 30 = todayDay taipei + 89"
    by code_simp
  have p4: "map parseInt (split_str 0x2D (js ''2027-01-31'')) = [Num 2027, Num 1, Num 31]"
    by code_simp
  have z4: "inDateRange (midnightOf taipei (expiryDay 2027 1 31))
    \<and> Day (LocalTime taipei (midnightOf taipei (expiryDay 2027 1 31))) = expiryDay 2027 1 31
    \<and> zoneOffsetAt taipei (todayDay taipei) \<le> zoneOffsetAt taipei (expiryDay 2027 1 31)
    \<and> zoneOffsetAt taipei (expiryDay 2027 1 31) < zoneOffsetAt taipei (todayDay taipei) + msPerDay"
    by code_simp
  have d4: "expiryDay 2027 1 31 = todayDay taipei + 90"
    by code_simp
  have c0: "computeExpiryInfo taipei (Some (js ''2026-11-02''))
       = \<lparr>daysLeft = Some (Num 0), status = Expired\<rparr>"
    using t z0 d0 computeExpiryInfo_thresholds [OF p0, of taipei] by blast
  have c1: "status (computeExpiryInfo taipei (Some (js ''2026-12-02''))) = Expired"
    using t z1 d1 computeExpiryInfo_thresholds [OF p1, of taipei] by blast
  have c2: "status (computeExpiryInfo taipei (Some (js ''2026-12-03''))) = Soon"
    using t z2 d2 computeExpiryInfo_thresholds [OF p2, of taipei] by blast
  have c3: "status (computeExpiryInfo taipei (Some (js ''2027-01-30''))) = Soon"
    using t z3 d3 computeExpiryInfo_thresholds [OF p3, of taipei] by blast
  have c4: "status (computeExpiryInfo taipei (Some (js ''2027-01-31''))) = Safe"
    using t z4 d4 computeExpiryInfo_thresholds [OF p4, of taipei] by blast
  show ?thesis
    using t p0 z0 d0 c0 p1 z1 d1 c1 p2 z2 d2 c2 p3 z3 d3 c3 p4 z4 d4 c4 by blast
qed

text \<open>
  C1 as stated fails where the clocks are set back in between. In New York on
  2026-10-15 the 14th of November is 30 calendar days ahead; the two midnights are 30
  days and one hour apart, the quotient is rounded up to 31, and the status is
  \<open>soon\<close>.
\<close>

theorem computeExpiryInfo_set_back_counterexample:
  "map parseInt (split_str 0x2D (js ''2026-11-14'')) = [Num 2026, Num 11, Num 14]
   \<and> expiryDay 2026 11 14 = todayDay newYork + 30
   \<and> computeExpiryInfo newYork (Some (js ''2026-11-14''))
       = \<lparr>daysLeft = Some (Num 31), status = Soon\<rparr>"
  by code_simp

text \<open>
  The other provisos are needed as well. In Taipei the 14th of September 275760 is
  99979242 calendar days ahead; its local midnight is past the last time value of a
  \<^verbatim>\<open>Date\<close>, the day count is \<^verbatim>\<open>NaN\<close> and the status \<open>safe\<close>. In Apia on
  2011-12-29 the 31st is two calendar days ahead, the offset is 24 hours larger there,
  the two midnights are one day apart and the day count is 1.
\<close>

lemma out_of_range_example:
  "map parseInt (split_str 0x2D (js ''275760-09-14'')) = [Num 275760, Num 9, Num 14]
   \<and> expiryDay 275760 9 14 = todayDay taipei + 99979242
   \<and> \<not> inDateRange (midnightOf taipei (expiryDay 275760 9 14))
   \<and> computeExpiryInfo taipei (Some (js ''275760-09-14''))
       = \<lparr>daysLeft = Some NaN, status = Safe\<rparr>"
  by code_simp

lemma day_skipped_example:
  "map parseInt (split_str 0x2D (js ''2011-12-31'')) = [Num 2011, Num 12, Num 31]
   \<and> expiryDay 2011 12 31 = todayDay apia + 2
   \<and> zoneOffsetAt apia (expiryDay 2011 12 31) = zoneOffsetAt apia (todayDay apia) + msPerDay
   \<and> computeExpiryInfo apia (Some (js ''2011-12-31''))
       = \<lparr>daysLeft = Some (Num 1), status = Expired\<rparr>"
  by code_simp

section \<open>Calendar rollover\<close>

lemma MakeDay_next_year: "MakeDay Y (M + 12) d = MakeDay (Y + 1) M d"
proof -
  have "(M + 12) div 12 = M div 12 + 1"
    by (rule div_add_self2) simp
  then have ym: "Y + (M + 12) div 12 = Y + 1 + M div 12"
    by linarith
  have mn: "(M + 12) mod 12 = M mod 12"
    by (rule mod_add_self2)
  show ?thesis
    unfolding MakeDay_def Let_def ym mn by (rule refl)
qed

lemma MakeDay_more_days: "MakeDay Y M (d + k) = MakeDay Y M d + k"
  unfolding MakeDay_def Let_def by linarith

lemma newDate_next_year:
  assumes "100 \<le> y"
  shows "newDate b (Num (y + 1)) (Num (m - 12 - 1)) (Num d)
    = newDate b (Num y) (Num (m - 1)) (Num d)"
proof -
  have y: "MakeFullYear (y + 1) = MakeFullYear y + 1"
    using assms by (simp add: MakeFullYear_def)
  have "m - 12 - 1 + 12 = m - 1"
    by linarith
  then have "MakeDay (MakeFullYear y) (m - 1) d = MakeDay (MakeFullYear y + 1) (m - 12 - 1) d"
    using MakeDay_next_year [of "MakeFullYear y" "m - 12 - 1" d] by (simp only:)
  then show ?thesis
    by (simp only: newDate.simps y)
qed

text \<open>
  C10: a string of three hyphen-separated components that \<^verbatim>\<open>parseInt\<close> accepts
  (trailing text after the digits is ignored; no range check on month or day) does not
  fall back: \<open>daysLeft\<close> is a number, not \<^verbatim>\<open>null\<close>, namely the rounded-up day
  difference between the \<^verbatim>\<open>Date\<close> made of the three numbers and today, and the status
  is not \<open>noexpiry\<close>. The \<^verbatim>\<open>Date\<close> rolls over: day \<open>d\<close> is \<open>d - 1\<close> days after the
  first of the month, whatever the month's length, and from year 100 on month \<open>m\<close> of
  year \<open>y\<close> is month \<open>m - 12\<close> of year \<open>y + 1\<close> (month 13 is January of the next
  year).
\<close>

theorem computeExpiryInfo_rollover:
  assumes parts: "map parseInt (split_str 0x2D s) = [Num y, Num m, Num d]"
  shows "daysLeft (computeExpiryInfo b (Some s)) =
           Some (ceil_div (num_sub (setHours0 b (newDate b (Num y) (Num (m - 1)) (Num d)))
                            (setHours0 b (Num (now b)))) msPerDay)
         \<and> status (computeExpiryInfo b (Some s)) \<noteq> NoExpiry
         \<and> newDate b (Num y) (Num (m - 1)) (Num d)
             = TimeClip (midnightOf b (MakeDay (MakeFullYear y) (m - 1) 1 + (d - 1)))
         \<and> (\<forall>s'. 100 \<le> y
                 \<and> map parseInt (split_str 0x2D s') = [Num (y + 1), Num (m - 12), Num d]
               \<longrightarrow> computeExpiryInfo b (Some s') = computeExpiryInfo b (Some s))"
proof (intro conjI allI impI)
  note e1 = computeExpiryInfo_dated [OF parts, of b]
  show "daysLeft (computeExpiryInfo b (Some s)) =
           Some (ceil_div (num_sub (setHours0 b (newDate b (Num y) (Num (m - 1)) (Num d)))
                            (setHours0 b (Num (now b)))) msPerDay)"
    unfolding e1 Let_def by simp
  show "status (computeExpiryInfo b (Some s)) \<noteq> NoExpiry"
    unfolding e1 Let_def by simp
  have "MakeDay (MakeFullYear y) (m - 1) (1 + (d - 1))
      = MakeDay (MakeFullYear y) (m - 1) 1 + (d - 1)"
    by (rule MakeDay_more_days)
  moreover have "1 + (d - 1) = d" by simp
  ultimately have "MakeDay (MakeFullYear y) (m - 1) d
      = MakeDay (MakeFullYear y) (m - 1) 1 + (d - 1)"
    by (simp only:)
  then show "newDate b (Num y) (Num (m - 1)) (Num d)
             = TimeClip (midnightOf b (MakeDay (MakeFullYear y) (m - 1) 1 + (d - 1)))"
    by (simp only: newDate.simps midnightOf_def)
next
  fix s'
  assume h: "100 \<le> y
    \<and> map parseInt (split_str 0x2D s') = [Num (y + 1), Num (m - 12), Num d]"
  then have p': "map parseInt (split_str 0x2D s') = [Num (y + 1), Num (m - 12), Num d]"
    by (rule conjunct2)
  from h have "100 \<le> y" by (rule conjunct1)
  note nd = newDate_next_year [OF this, of b m d]
  show "computeExpiryInfo b (Some s') = computeExpiryInfo b (Some s)"
    unfolding computeExpiryInfo_dated [OF parts] computeExpiryInfo_dated [OF p'] nd
    by (rule refl)
qed

text \<open>
  In Taipei on 2026-11-02: \<^verbatim>\<open>2026x-13-40\<close> is read as 2026, 13, 40, that is the
  ninth of February 2027, 99 days ahead, as \<^verbatim>\<open>2027-01-40\<close> is.
\<close>

theorem computeExpiryInfo_rollover_witness:
  "map parseInt (split_str 0x2D (js ''2026x-13-40'')) = [Num 2026, Num 13, Num 40]
   \<and> map parseInt (split_str 0x2D (js ''2027-01-40'')) = [Num 2027, Num 1, Num 40]
   \<and> computeExpiryInfo taipei (Some (js ''2027-01-40''))
       = computeExpiryInfo taipei (Some (js ''2026x-13-40''))
   \<and> status (computeExpiryInfo taipei (Some (js ''2026x-13-40''))) \<noteq> NoExpiry
   \<and> computeExpiryInfo taipei (Some (js ''2026x-13-40''))
       = computeExpiryInfo taipei (Some (js ''2027-02-09''))
   \<and> computeExpiryInfo taipei (Some (js ''2026x-13-40''))
       = \<lparr>daysLeft = Some (Num 99), status = Safe\<rparr>"
proof -
  have p1: "map parseInt (split_str 0x2D (js ''2026x-13-40'')) = [Num 2026, Num 13, Num 40]"
    by code_simp
  have p2: "map parseInt (split_str 0x2D (js ''2027-01-40'')) = [Num 2027, Num 1, Num 40]"
    by code_simp
  have v: "computeExpiryInfo taipei (Some (js ''2026x-13-40''))
       = \<lparr>daysLeft = Some (Num 99), status = Safe\<rparr>"
    by code_simp
  have w: "computeExpiryInfo taipei (Some (js ''2027-02-09''))
       = \<lparr>daysLeft = Some (Num 99), status = Safe\<rparr>"
    by code_simp
  have "computeExpiryInfo taipei (Some (js ''2027-01-40''))
       = computeExpiryInfo taipei (Some (js ''2026x-13-40''))
     \<and> status (computeExpiryInfo taipei (Some (js ''2026x-13-40''))) \<noteq> NoExpiry"
    using p2 computeExpiryInfo_rollover [OF p1, of taipei] by simp
  then show ?thesis
    using p1 p2 v w by simp
qed

section \<open>The aggregator\<close>

lemma set_insert_cmp: "set (insert_cmp cmp x ys) = insert x (set ys)"
  by (induction ys) auto

lemma set_array_sort: "set (array_sort cmp xs) = set xs"
  by (induction xs) (simp_all add: array_sort_def set_insert_cmp)

lemma length_insert_cmp: "length (insert_cmp cmp x ys) = Suc (length ys)"
  by (induction ys) auto

lemma length_array_sort: "length (array_sort cmp xs) = length xs"
  by (induction xs) (simp_all add: array_sort_def length_insert_cmp)

text \<open>On a classified row the second disjunct of the urgency test adds nothing.\<close>

lemma classify_urgent:
  "isUrgent (classify b r) \<longleftrightarrow> status (meta (classify b r)) = Expired"
  using computeExpiryInfo_cases [of b "r key_expiry"]
  by (auto simp add: isUrgent_def classify_def split: if_splits)

text \<open>
  C4: whatever the filter selector, the four counters are those of the whole of
  \<open>items\<close>: its length and the numbers of its items of status \<open>safe\<close>, \<open>soon\<close> and
  \<open>expired\<close>. A selector other than the empty one and \<open>all\<close> that is the category of no
  item leaves an empty listing beside these counters.
\<close>

theorem counts_ignore_filter:
  "totalCount (viewModel b (st\<lparr>filterSelect := f\<rparr>)) = length (items st)
   \<and> safeCount (viewModel b (st\<lparr>filterSelect := f\<rparr>)) = countStatus Safe (items st)
   \<and> soonCount (viewModel b (st\<lparr>filterSelect := f\<rparr>)) = countStatus Soon (items st)
   \<and> expiredCount (viewModel b (st\<lparr>filterSelect := f\<rparr>)) = countStatus Expired (items st)
   \<and> (f \<noteq> [] \<and> f \<noteq> js ''all'' \<and> (\<forall>i \<in> set (items st). props i key_category \<noteq> Some f)
        \<longrightarrow> listing (viewModel b (st\<lparr>filterSelect := f\<rparr>)) = [])"
proof -
  have "applySort b m [] = []" for m
    by (simp add: applySort_def array_sort_def)
  moreover have "applyFilter f (items st) = []"
    if "f \<noteq> []" "f \<noteq> js ''all''" "\<forall>i \<in> set (items st). props i key_category \<noteq> Some f"
    using that by (simp add: applyFilter_def)
  ultimately show ?thesis
    by (simp add: viewModel_def Let_def)
qed

text \<open>
  No row of the sample sheet has the category \<^verbatim>\<open>Tools\<close>: that selector empties the
  listing, and the counters stay at 5, 2, 1 and 1, as under the selector \<^verbatim>\<open>all\<close>.
\<close>

theorem counts_ignore_filter_witness:
  "\<not> list_ex (\<lambda>i. props i key_category = Some (js ''Tools'')) (items samplePage)
   \<and> listing (viewModel taipei (samplePage\<lparr>filterSelect := js ''Tools''\<rparr>)) = []
   \<and> totalCount (viewModel taipei (samplePage\<lparr>filterSelect := js ''Tools''\<rparr>)) = 5
   \<and> safeCount (viewModel taipei (samplePage\<lparr>filterSelect := js ''Tools''\<rparr>)) = 2
   \<and> soonCount (viewModel taipei (samplePage\<lparr>filterSelect := js ''Tools''\<rparr>)) = 1
   \<and> expiredCount (viewModel taipei (samplePage\<lparr>filterSelect := js ''Tools''\<rparr>)) = 1
   \<and> totalCount (viewModel taipei (samplePage\<lparr>filterSelect := js ''all''\<rparr>)) = 5
   \<and> safeCount (viewModel taipei (samplePage\<lparr>filterSelect := js ''all''\<rparr>)) = 2
   \<and> soonCount (viewModel taipei (samplePage\<lparr>filterSelect := js ''all''\<rparr>)) = 1
   \<and> expiredCount (viewModel taipei (samplePage\<lparr>filterSelect := js ''all''\<rparr>)) = 1
   \<and> length (listing (viewModel taipei (samplePage\<lparr>filterSelect := js ''all''\<rparr>))) = 5"
proof -
  have none: "\<not> list_ex (\<lambda>i. props i key_category = Some (js ''Tools'')) (items samplePage)"
    by code_simp
  then have h: "\<forall>i \<in> set (items samplePage). props i key_category \<noteq> Some (js ''Tools'')"
    by (simp add: list_ex_iff)
  have f: "js ''Tools'' \<noteq> [] \<and> js ''Tools'' \<noteq> js ''all''"
    by code_simp
  have n: "length (items samplePage) = 5"
    "countStatus Safe (items samplePage) = 2"
    "countStatus Soon (items samplePage) = 1"
    "countStatus Expired (items samplePage) = 1"
    by code_simp+
  have l: "length (listing (viewModel taipei (samplePage\<lparr>filterSelect := js ''all''\<rparr>))) = 5"
    by code_simp
  show ?thesis
    using none h f n l
      counts_ignore_filter [where b = taipei and st = samplePage and f = "js ''Tools''"]
      counts_ignore_filter [where b = taipei and st = samplePage and f = "js ''all''"]
    by simp
qed

text \<open>
  C5: on the items that classification produces, the urgent subset (status \<open>expired\<close>,
  or a \<open>daysLeft\<close> that is not \<^verbatim>\<open>null\<close> and at most 30) consists of exactly the
  items of status \<open>expired\<close>, and it is empty if and only if no item has that status.
\<close>

theorem urgents_are_expired:
  "set (urgents (map (classify b) raw))
     = {i \<in> set (map (classify b) raw). status (meta i) = Expired}
   \<and> (urgents (map (classify b) raw) = []
        \<longleftrightarrow> (\<forall>i \<in> set (map (classify b) raw). status (meta i) \<noteq> Expired))"
proof -
  have f: "filter isUrgent (map (classify b) raw)
      = filter (\<lambda>i. status (meta i) = Expired) (map (classify b) raw)"
    by (rule filter_cong) (auto simp add: classify_urgent)
  have s: "set (urgents (map (classify b) raw))
     = {i \<in> set (map (classify b) raw). status (meta i) = Expired}"
    unfolding urgents_def set_array_sort f by simp
  have "urgents (map (classify b) raw) = [] \<longleftrightarrow> set (urgents (map (classify b) raw)) = {}"
    by simp
  then show ?thesis unfolding s by blast
qed

text \<open>The one urgent item of the sample sheet is the rice, 18 days ahead.\<close>

theorem urgents_are_expired_witness:
  "map (status \<circ> meta) sampleItems = [NoExpiry, Safe, Safe, Expired, Soon]
   \<and> map (daysLeft \<circ> meta) (urgents sampleItems) = [Some (Num 18)]
   \<and> set (urgents sampleItems) = {i \<in> set sampleItems. status (meta i) = Expired}
   \<and> urgents sampleItems \<noteq> []"
proof -
  have a: "map (status \<circ> meta) sampleItems = [NoExpiry, Safe, Safe, Expired, Soon]"
    by code_simp
  have u: "map (daysLeft \<circ> meta) (urgents sampleItems) = [Some (Num 18)]"
    by code_simp
  then have ne: "urgents sampleItems \<noteq> []"
    by auto
  show ?thesis
    using a u ne urgents_are_expired [of taipei "parseCSV sampleCSV"]
    unfolding sampleItems_def by blast
qed

text \<open>
  C9: the counter of all items is the sum of the counters of \<open>safe\<close>, \<open>soon\<close> and
  \<open>expired\<close> items and of the number of \<open>noexpiry\<close> items (which the page does not
  show): every item has exactly one of the four statuses.
\<close>

theorem counts_add_up:
  "totalCount (viewModel b st)
     = safeCount (viewModel b st) + soonCount (viewModel b st) + expiredCount (viewModel b st)
       + countStatus NoExpiry (items st)"
proof -
  have "length its = countStatus Safe its + countStatus Soon its + countStatus Expired its
      + countStatus NoExpiry its" for its :: "item list"
  proof (induction its)
    case Nil
    show ?case by (simp add: countStatus_def)
  next
    case (Cons i its)
    then show ?case by (cases "status (meta i)") (simp_all add: countStatus_def)
  qed
  then show ?thesis by (simp add: viewModel_def Let_def)
qed

theorem counts_add_up_witness:
  "totalCount (viewModel taipei samplePage) = 5
   \<and> safeCount (viewModel taipei samplePage) = 2
   \<and> soonCount (viewModel taipei samplePage) = 1
   \<and> expiredCount (viewModel taipei samplePage) = 1
   \<and> countStatus NoExpiry (items samplePage) = 1"
proof -
  have "safeCount (viewModel taipei samplePage) = 2"
    "soonCount (viewModel taipei samplePage) = 1"
    "expiredCount (viewModel taipei samplePage) = 1"
    "countStatus NoExpiry (items samplePage) = 1"
    by code_simp+
  then show ?thesis
    using counts_add_up [of taipei samplePage] by simp
qed

text \<open>
  Where no day count is \<^verbatim>\<open>NaN\<close>, sorting by expiry orders the items by their key, the
  key of \<^verbatim>\<open>null\<close> being 99999: a dated item stands behind an item without expiry only
  when its day count is 99999 or more.
\<close>

lemma insert_cmp_byExpiry_sorted:
  assumes "sorted_wrt (\<lambda>a c. \<not> sorts_after (byExpiry a c)) ys"
    and "\<forall>i \<in> set (x # ys). expiryKey i \<noteq> NaN"
  shows "sorted_wrt (\<lambda>a c. \<not> sorts_after (byExpiry a c)) (insert_cmp byExpiry x ys)"
  using assms
proof (induction ys)
  case Nil
  then show ?case by simp
next
  case (Cons y ys)
  obtain kx ky where k: "expiryKey x = Num kx" "expiryKey y = Num ky"
    using Cons.prems(2) by (cases "expiryKey x"; cases "expiryKey y") auto
  have below: "\<not> sorts_after (byExpiry x z)"
    if "z \<in> set ys" "\<not> sorts_after (byExpiry x y)" for z
  proof -
    have "expiryKey z \<noteq> NaN"
      using Cons.prems(2) that(1) by simp
    then obtain kz where "expiryKey z = Num kz"
      by (cases "expiryKey z") simp_all
    moreover have "\<not> sorts_after (byExpiry y z)"
      using Cons.prems(1) that(1) by simp
    ultimately show ?thesis
      using that(2) k by (simp add: byExpiry_def)
  qed
  show ?case
  proof (cases "sorts_after (byExpiry x y)")
    case True
    then have "\<not> sorts_after (byExpiry y x)"
      using k by (simp add: byExpiry_def)
    with True Cons show ?thesis
      by (auto simp add: set_insert_cmp)
  next
    case False
    with Cons.prems(1) below show ?thesis
      by auto
  qed
qed

lemma array_sort_byExpiry_sorted:
  assumes "\<forall>i \<in> set its. expiryKey i \<noteq> NaN"
  shows "sorted_wrt (\<lambda>a c. \<not> sorts_after (byExpiry a c)) (array_sort byExpiry its)"
  using assms
proof (induction its)
  case Nil
  show ?case by (simp add: array_sort_def)
next
  case (Cons i its)
  then have "sorted_wrt (\<lambda>a c. \<not> sorts_after (byExpiry a c))
      (insert_cmp byExpiry i (array_sort byExpiry its))"
    by (intro insert_cmp_byExpiry_sorted) (simp_all add: set_array_sort)
  then show ?case by (simp add: array_sort_def)
qed

lemma dated_behind_noexpiry:
  assumes "\<forall>i \<in> set its. expiryKey i \<noteq> NaN"
    and "j < k" and "k < length its"
    and "daysLeft (meta (array_sort byExpiry its ! j)) = None"
    and "daysLeft (meta (array_sort byExpiry its ! k)) = Some (Num n)"
  shows "99999 \<le> n"
proof -
  have "\<not> sorts_after (byExpiry (array_sort byExpiry its ! j) (array_sort byExpiry its ! k))"
    using array_sort_byExpiry_sorted [OF assms(1)] assms(2,3)
    by (simp add: sorted_wrt_iff_nth_less length_array_sort)
  then show ?thesis
    using assms(4,5) by (simp add: byExpiry_def expiryKey_def)
qed

text \<open>
  C6 fails on the code: the key of an item without expiry is the constant 99999, not
  a largest value. A dated item more than 99999 days ahead is sorted behind every item
  without expiry, in whatever order the two stood before.
\<close>

theorem sort_by_expiry_sentinel:
  assumes "daysLeft (meta a) = Some (Num n)" and "99999 < n" and "daysLeft (meta c) = None"
  shows "applySort b (js ''expiry'') [c, a] = [c, a]
    \<and> applySort b (js ''expiry'') [a, c] = [c, a]"
proof -
  have m: "js ''expiry'' \<noteq> js ''category''"
    by (simp add: js_def)
  show ?thesis
    using assms
    by (simp add: applySort_def m array_sort_def byExpiry_def expiryKey_def)
qed

text \<open>
  On the sample sheet the salt, dated 9999-12-31, ends behind the water, which has no
  expiry.
\<close>

theorem sort_by_expiry_sentinel_witness:
  "daysLeft (meta (sampleItems ! 1)) = Some (Num 2912137)
   \<and> daysLeft (meta (sampleItems ! 0)) = None
   \<and> applySort taipei (js ''expiry'') [sampleItems ! 1, sampleItems ! 0]
       = [sampleItems ! 0, sampleItems ! 1]
   \<and> map (daysLeft \<circ> meta)
        (listing (viewModel taipei (samplePage\<lparr>sortSelect := js ''expiry''\<rparr>)))
       = [Some (Num 18), Some (Num 74), Some (Num 211), None, Some (Num 2912137)]"
proof -
  have a: "daysLeft (meta (sampleItems ! 1)) = Some (Num 2912137)"
    by code_simp
  have c: "daysLeft (meta (sampleItems ! 0)) = None"
    by code_simp
  have l: "map (daysLeft \<circ> meta)
        (listing (viewModel taipei (samplePage\<lparr>sortSelect := js ''expiry''\<rparr>)))
       = [Some (Num 18), Some (Num 74), Some (Num 211), None, Some (Num 2912137)]"
    by code_simp
  show ?thesis
    using a c l sort_by_expiry_sentinel [OF a _ c, of taipei] by simp
qed

section \<open>The parser\<close>

lemma pad_cols_replicate: "pad_cols n cols = cols @ replicate (n - length cols) []"
proof (induction n cols rule: pad_cols.induct)
  case (1 n cols)
  show ?case
  proof (cases "length cols < n")
    case True
    then have "n - length cols = Suc (n - Suc (length cols))"
      by simp
    then have "replicate (n - length cols) ([] :: jsstring)
        = [] # replicate (n - Suc (length cols)) []"
      by simp
    with True "1.IH" show ?thesis
      by (simp add: pad_cols.simps [of n cols])
  next
    case False
    then show ?thesis
      by (simp add: pad_cols.simps [of n cols])
  qed
qed

lemma col_or_empty_pad: "col_or_empty (pad_cols n cols) i = col_or_empty cols i"
  by (auto simp add: col_or_empty_def pad_cols_replicate nth_append)

lemma col_or_empty_take: "i < n \<Longrightarrow> col_or_empty (take n cols) i = col_or_empty cols i"
  by (simp add: col_or_empty_def)

lemma col_or_empty_missing: "length cols \<le> i \<Longrightarrow> col_or_empty cols i = []"
  by (simp add: col_or_empty_def)

lemma row_of_line_fold:
  "row_of_line headers line =
     fold (\<lambda>i obj. set_field obj (headers ! i) (col_or_empty (map trim (split_str 0x2C line)) i))
       [0 ..< length headers] Map.empty"
  by (simp add: row_of_line_def Let_def col_or_empty_pad)

lemma dom_fold_set_field:
  "dom (fold (\<lambda>i obj. set_field obj (hs ! i) (g i)) ks m)
     = dom m \<union> ((\<lambda>i. hs ! i) ` set ks - {js ''__proto__''})"
  by (induction ks arbitrary: m) (auto simp add: set_field_def)

text \<open>The fields of a row are the header's tokens, \<^verbatim>\<open>__proto__\<close> left out.\<close>

lemma dom_row_of_line: "dom (row_of_line headers line) = set headers - {js ''__proto__''}"
proof -
  have "(\<lambda>i. headers ! i) ` set [0 ..< length headers]
      = set (map ((!) headers) [0 ..< length headers])"
    by simp
  also have "\<dots> = set headers"
    by (simp only: map_nth)
  finally show ?thesis
    by (simp add: row_of_line_fold dom_fold_set_field)
qed

lemma fold_set_field_last:
  assumes "i < n" and "hs ! i \<noteq> js ''__proto__''" and "\<forall>j. i \<le> j \<and> j < n \<longrightarrow> g j = v"
  shows "fold (\<lambda>i obj. set_field obj (hs ! i) (g i)) [0 ..< n] m (hs ! i) = Some v"
  using assms
proof (induction n)
  case 0
  then show ?case by simp
next
  case (Suc n)
  show ?case
  proof (cases "hs ! n = hs ! i")
    case True
    with Suc.prems show ?thesis
      by (simp add: set_field_def)
  next
    case False
    with Suc.prems have "i < n"
      by (metis less_SucE)
    with Suc False show ?thesis
      by (simp add: set_field_def)
  qed
qed

text \<open>A header past the tokens of the line gets the empty string.\<close>

lemma row_of_line_padding:
  assumes "i < length headers" and "headers ! i \<noteq> js ''__proto__''"
    and "length (split_str 0x2C line) \<le> i"
  shows "row_of_line headers line (headers ! i) = Some []"
  unfolding row_of_line_fold
  by (rule fold_set_field_last) (use assms in \<open>simp_all add: col_or_empty_missing\<close>)

text \<open>Tokens past the header count do not reach the row.\<close>

lemma row_of_line_extra_tokens:
  assumes "take (length headers) (map trim (split_str 0x2C line))
    = take (length headers) (map trim (split_str 0x2C line'))"
  shows "row_of_line headers line = row_of_line headers line'"
proof -
  have "col_or_empty (map trim (split_str 0x2C line)) i
      = col_or_empty (map trim (split_str 0x2C line')) i" if "i < length headers" for i
    using col_or_empty_take [OF that, of "map trim (split_str 0x2C line)"]
      col_or_empty_take [OF that, of "map trim (split_str 0x2C line')"] assms
    by simp
  then show ?thesis
    unfolding row_of_line_fold by (intro fold_cong) simp_all
qed

text \<open>One row for each line after the first of the trimmed text, in the order of the lines.\<close>

lemma parseCSV_rows:
  assumes "split_lines (trim text) = header # rest"
  shows "parseCSV text = map (row_of_line (map trim (split_str 0x2C header))) rest"
  using assms by (cases rest) (simp_all add: parseCSV_def Let_def)

text \<open>
  With a header that has no token \<^verbatim>\<open>__proto__\<close>: one row for each line after the
  first, in the order of the lines, each with the header's tokens as its key set and
  the empty string in every field past the tokens of its line.
\<close>

lemma parseCSV_records:
  assumes lines: "split_lines (trim text) = header # rest"
    and hs: "hs = map trim (split_str 0x2C header)"
    and proto: "js ''__proto__'' \<notin> set hs"
  shows "length (parseCSV text) = length rest
    \<and> (\<forall>k < length rest.
          parseCSV text ! k = row_of_line hs (rest ! k)
          \<and> dom (parseCSV text ! k) = set hs
          \<and> (\<forall>i < length hs. length (split_str 0x2C (rest ! k)) \<le> i
                \<longrightarrow> (parseCSV text ! k) (hs ! i) = Some []))"
proof -
  have rows: "parseCSV text = map (row_of_line hs) rest"
    unfolding hs by (rule parseCSV_rows [OF lines])
  have "hs ! i \<noteq> js ''__proto__''" if "i < length hs" for i
    using proto that by (metis nth_mem)
  then show ?thesis
    using proto by (simp add: rows dom_row_of_line row_of_line_padding)
qed

text \<open>
  C3 fails on the code where a token of the header is \<^verbatim>\<open>__proto__\<close>: the assignment
  \<^verbatim>\<open>obj[h] = ...\<close> creates no field of that name, so no row has the header's tokens
  as its key set.
\<close>

theorem proto_header_has_no_field:
  assumes "split_lines (trim text) = header # rest"
    and "js ''__proto__'' \<in> set (map trim (split_str 0x2C header))"
  shows "\<forall>r \<in> set (parseCSV text). dom r \<noteq> set (map trim (split_str 0x2C header))"
  using assms(2) by (auto simp add: parseCSV_rows [OF assms(1)] dom_row_of_line)

theorem proto_header_has_no_field_witness:
  "split_lines (trim protoCSV) = [js ''name,__proto__'', js ''Rice,x'']
   \<and> map trim (split_str 0x2C (js ''name,__proto__'')) = [js ''name'', js ''__proto__'']
   \<and> map (\<lambda>r. (r (js ''name''), r (js ''__proto__''))) (parseCSV protoCSV)
       = [(Some (js ''Rice''), None)]
   \<and> map dom (parseCSV protoCSV) = [{js ''name''}]"
proof -
  have l: "split_lines (trim protoCSV) = [js ''name,__proto__'', js ''Rice,x'']"
    by code_simp
  have h: "map trim (split_str 0x2C (js ''name,__proto__'')) = [js ''name'', js ''__proto__'']"
    by code_simp
  have v: "map (\<lambda>r. (r (js ''name''), r (js ''__proto__''))) (parseCSV protoCSV)
       = [(Some (js ''Rice''), None)]"
    by code_simp
  have n: "js ''name'' \<noteq> js ''__proto__''"
    by code_simp
  have "map dom (parseCSV protoCSV) = [{js ''name''}]"
    using n by (auto simp add: parseCSV_rows [OF l] dom_row_of_line h)
  moreover have "\<forall>r \<in> set (parseCSV protoCSV). dom r \<noteq> {js ''name'', js ''__proto__''}"
    using proto_header_has_no_field [OF l] h by simp
  ultimately show ?thesis
    using l h v by simp
qed

section \<open>Page load and refresh\<close>

lemma url_configured: "\<not> str_includes CSV_URL (js ''<YOUR_PUB_ID>'')"
  by code_simp

lemma fetchAndParseCSV_result:
  "fetchAndParseCSV response st
     = (case response of Inl e \<Rightarrow> (Inl e, st) | Inr text \<Rightarrow> (Inr (parseCSV text), st))"
  by (simp add: fetchAndParseCSV_def url_configured)

text \<open>
  C7 fails on the code for the page load: \<^verbatim>\<open>init\<close> has no \<^verbatim>\<open>try\<close>, so a failed fetch
  rejects its promise, which nobody handles, and no alert is shown. The refresh
  listener catches the failure and alerts. Both leave \<open>items\<close> and the page as they
  were.
\<close>

theorem init_drops_fetch_failure:
  "init b (Inl e) st = (Inl e, st)
   \<and> fst (refreshClick b (Inl e) st) = Inr ()
   \<and> alerts (snd (refreshClick b (Inl e) st)) = alerts st @ [RefreshFailedAlert]
   \<and> items (snd (refreshClick b (Inl e) st)) = items st
   \<and> dashboard (snd (refreshClick b (Inl e) st)) = dashboard st"
  by (simp add: init_def refreshClick_def fetchAndParseCSV_result Let_def)

theorem init_drops_fetch_failure_witness:
  "fst (init taipei (Inl FetchFailed) samplePage) = Inl FetchFailed
   \<and> alerts (snd (init taipei (Inl FetchFailed) samplePage)) = []
   \<and> fst (refreshClick taipei (Inl FetchFailed) samplePage) = Inr ()
   \<and> alerts (snd (refreshClick taipei (Inl FetchFailed) samplePage)) = [RefreshFailedAlert]"
proof -
  have "alerts samplePage = []"
    by (simp add: samplePage_def emptyPage_def)
  then show ?thesis
    using init_drops_fetch_failure [of taipei FetchFailed samplePage] by simp
qed

text \<open>
  C8 fails on the code for the page load: on a document without data rows \<^verbatim>\<open>init\<close>
  returns before \<^verbatim>\<open>renderAll\<close>, so it writes neither counters nor the message of the
  urgent panel; the page stays as it was. The refresh listener renders: four zero
  counters, the message, an empty listing.
\<close>

theorem init_skips_empty_dataset:
  assumes "parseCSV text = []"
  shows "init b (Inr text) st = (Inr (), st)
   \<and> fst (refreshClick b (Inr text) st) = Inr ()
   \<and> items (snd (refreshClick b (Inr text) st)) = []
   \<and> dashboard (snd (refreshClick b (Inr text) st))
       = Some \<lparr>totalCount = 0, safeCount = 0, soonCount = 0, expiredCount = 0,
               urgentList = NoUrgentMessage, listing = []\<rparr>"
proof -
  have "applySort b m [] = []" for m
    by (simp add: applySort_def array_sort_def)
  then show ?thesis
    using assms
    by (simp add: init_def refreshClick_def fetchAndParseCSV_result Let_def renderAll_def
        viewModel_def countStatus_def urgents_def array_sort_def applyFilter_def)
qed

text \<open>A sheet of the header line alone, loaded into a fresh page: nothing is rendered.\<close>

theorem init_skips_empty_dataset_witness:
  "length (parseCSV (key_expiry @ [0x0A])) = 0
   \<and> fst (init taipei (Inr (key_expiry @ [0x0A])) emptyPage) = Inr ()
   \<and> dashboard (snd (init taipei (Inr (key_expiry @ [0x0A])) emptyPage)) = None
   \<and> dashboard (snd (refreshClick taipei (Inr (key_expiry @ [0x0A])) emptyPage))
       = Some \<lparr>totalCount = 0, safeCount = 0, soonCount = 0, expiredCount = 0,
               urgentList = NoUrgentMessage, listing = []\<rparr>"
proof -
  have "length (parseCSV (key_expiry @ [0x0A])) = 0"
    by code_simp
  then have e: "parseCSV (key_expiry @ [0x0A]) = []"
    by simp
  have "dashboard emptyPage = None"
    by (simp add: emptyPage_def)
  then show ?thesis
    using e init_skips_empty_dataset [OF e, of taipei emptyPage] by simp
qed

end
